theory Spec2Isabelle
  imports Complex_Main "HOL-Library.Sublist"
begin

section \<open>Python values\<close>

text \<open>
  The relay of \<^verbatim>\<open>src/main.py\<close> handles values decoded by \<^verbatim>\<open>json.loads\<close> and builds
  dict literals. A \<^verbatim>\<open>str\<close> is a HOL string whose characters are read as code points
  below 256; a \<^verbatim>\<open>float\<close> is idealised as a real number (with the three non-finite floats
  kept apart), a \<^verbatim>\<open>dict\<close> is the list of its items in insertion order, keys distinct.

  The handler is modelled as it runs for one connection: the frames it receives one after
  the other, each turn carried through before the next \<^verbatim>\<open>receive_text\<close>. The lines it
  prints to the console and the cancellation of its task are left out.
\<close>

datatype pyfloat = Finite real | PosInf | NegInf | NaN

datatype pyval =
    PNone
  | PBool bool
  | PInt int
  | PFloat pyfloat
  | PStr string
  | PList "pyval list"
  | PDict "(string \<times> pyval) list"

type_synonym pydict = "(string \<times> pyval) list"

text \<open>Truth value testing, as \<^verbatim>\<open>if x:\<close> does it.\<close>

fun truthy :: "pyval \<Rightarrow> bool" where
  "truthy PNone = False"
| "truthy (PBool b) = b"
| "truthy (PInt i) = (i \<noteq> 0)"
| "truthy (PFloat (Finite r)) = (r \<noteq> 0)"
| "truthy (PFloat _) = True"
| "truthy (PStr s) = (s \<noteq> [])"
| "truthy (PList xs) = (xs \<noteq> [])"
| "truthy (PDict kvs) = (kvs \<noteq> [])"

text \<open>\<^verbatim>\<open>d.get(key, default)\<close>.\<close>

definition dict_get :: "pydict \<Rightarrow> string \<Rightarrow> pyval \<Rightarrow> pyval" where
  "dict_get d k dflt = (case map_of d k of None \<Rightarrow> dflt | Some v \<Rightarrow> v)"

text \<open>An exception object: which \<^verbatim>\<open>except\<close> clause of the handler it meets, and \<^verbatim>\<open>str(e)\<close>.\<close>

datatype exn_class = WebSocketDisconnect | OtherException

datatype exn = Exn (class_of: exn_class) (str: string)

section \<open>Message building\<close>

definition MASTER_THERAPY_PROMPT :: string where
  "MASTER_THERAPY_PROMPT =
     [CHR 0x0A] @ ''You are an empathetic, licensed-therapist-style AI assistant.''
   @ [CHR 0x0A] @ ''You respond with warmth, clarity, and psychological insight.''
   @ [CHR 0x0A] @ ''[TODO: real master prompt text will be pasted here later.]''
   @ [CHR 0x0A]"

definition system_message :: "pyval \<Rightarrow> pydict" where
  "system_message c = [(''role'', PStr ''system''), (''content'', c)]"

definition user_message :: "pyval \<Rightarrow> pydict" where
  "user_message c = [(''role'', PStr ''user''), (''content'', c)]"

text \<open>
  \<^verbatim>\<open>build_messages(patient_text, therapist_whisper=None)\<close>. Python checks neither
  annotation, so both arguments are arbitrary values; \<^verbatim>\<open>None\<close> is \<^const>\<open>PNone\<close>.
\<close>

definition build_messages :: "pyval \<Rightarrow> pyval \<Rightarrow> pydict list" where
  "build_messages patient_text therapist_whisper =
     (let messages = [system_message (PStr MASTER_THERAPY_PROMPT)];
          messages = (if truthy therapist_whisper
                      then messages @ [system_message therapist_whisper]
                      else messages)
      in messages @ [user_message patient_text])"

section \<open>The world around one connection\<close>

text \<open>
  What the provider does with one \<^verbatim>\<open>chat.completions.create(..., stream=True)\<close> call and
  the iteration over its stream. A chunk is its \<^verbatim>\<open>choices\<close> list, each choice given by its
  \<^verbatim>\<open>delta.content\<close> (a \<^verbatim>\<open>str\<close> or \<^verbatim>\<open>None\<close>). The stream is the finite list of chunks
  delivered before it ends or raises.
\<close>

type_synonym chunk = "string option list"

datatype stream_end = EndOfStream | StreamRaises exn

datatype completion = CreateRaises exn | Stream "chunk list" stream_end

text \<open>
  Everything outside the handler that one pass of the receive loop can observe:
  the constructor \<^verbatim>\<open>AsyncOpenAI()\<close> (which raises when no credential is configured), the
  clock read by \<^verbatim>\<open>time.time()\<close> before and after the stream, the provider's answer to the
  request, and the string \<^verbatim>\<open>time.strftime("%Y-%m-%d %H:%M:%S", time.gmtime())\<close> yields
  when the record is built.
\<close>

record world =
  new_client :: "exn option"
  start_time :: real
  create :: "string \<Rightarrow> pydict list \<Rightarrow> completion"
  end_time :: real
  gmtime_stamp :: string

text \<open>
  What \<^verbatim>\<open>websocket.receive_text()\<close> does: it returns a text frame (paired with the world
  during the pass it starts) or raises: \<^verbatim>\<open>WebSocketDisconnect\<close> when the client has gone,
  another exception for instance on a binary frame.
\<close>

datatype inbound = Text string world | ReceiveRaises exn

text \<open>
  Fixed for one connection: \<^verbatim>\<open>json.loads\<close> (\<^const>\<open>None\<close> where it raises), the
  \<^verbatim>\<open>str(uuid.uuid4())\<close> drawn after \<^verbatim>\<open>accept\<close>, and the exception \<^verbatim>\<open>send_text\<close> raises
  once the client no longer takes frames.
\<close>

record env =
  loads :: "string \<Rightarrow> pyval option"
  session_id :: string
  send_error :: exn

datatype status = Idle | Closed exn_class

text \<open>
  The state the handler reads and writes: the two module globals
  (\<^verbatim>\<open>BILLING_RECORDS\<close>, and whether \<^verbatim>\<open>_openai_client\<close> is set), and the connection:
  where the receive loop stands, the dicts serialised with \<^verbatim>\<open>json.dumps\<close> and sent so
  far, the requests made to the provider (model and messages), and how many more
  frames the client takes (\<^const>\<open>None\<close>: it stays connected).
\<close>

record state =
  status :: status
  sent :: "pydict list"
  send_budget :: "nat option"
  BILLING_RECORDS :: "pydict list"
  openai_client :: bool
  requests :: "(string \<times> pydict list) list"

section \<open>Library functions the handler calls\<close>

text \<open>\<^verbatim>\<open>str.lower()\<close> on code points below 256.\<close>

definition lower_char :: "char \<Rightarrow> char" where
  "lower_char c =
     (let n = (of_char c :: nat)
      in if (65 \<le> n \<and> n \<le> 90) \<or> (192 \<le> n \<and> n \<le> 222 \<and> n \<noteq> 215)
         then char_of (n + 32) else c)"

definition lower :: "string \<Rightarrow> string" where
  "lower s = map lower_char s"

text \<open>
  \<^verbatim>\<open>round(x, ndigits)\<close> on a float, idealised on the reals: the nearest multiple of
  \<open>10 ^ -ndigits\<close>, a tie going to the even one.
\<close>

definition round_half_even :: "real \<Rightarrow> int" where
  "round_half_even x =
     (let f = \<lfloor>x\<rfloor>; d = x - of_int f
      in if d < 1 / 2 then f
         else if 1 / 2 < d then f + 1
         else if even f then f else f + 1)"

definition py_round :: "real \<Rightarrow> nat \<Rightarrow> real" where
  "py_round x ndigits = of_int (round_half_even (x * 10 ^ ndigits)) / 10 ^ ndigits"

text \<open>
  \<^verbatim>\<open>get_openai_client()\<close>: the client is built on first use and kept; the first
  argument is what the constructor \<^verbatim>\<open>AsyncOpenAI()\<close> does if it is called.
\<close>

definition get_openai_client :: "exn option \<Rightarrow> state \<Rightarrow> exn option \<times> state" where
  "get_openai_client ctor s =
     (if openai_client s then (None, s)
      else (case ctor of
              Some e \<Rightarrow> (Some e, s)
            | None \<Rightarrow> (None, s\<lparr>openai_client := True\<rparr>)))"

text \<open>\<^verbatim>\<open>await websocket.send_text(json.dumps(frame))\<close>.\<close>

definition send_text :: "env \<Rightarrow> pydict \<Rightarrow> state \<Rightarrow> exn option \<times> state" where
  "send_text E frame s =
     (case send_budget s of
        None \<Rightarrow> (None, s\<lparr>sent := sent s @ [frame]\<rparr>)
      | Some 0 \<Rightarrow> (Some (send_error E), s)
      | Some (Suc n) \<Rightarrow> (None, s\<lparr>sent := sent s @ [frame], send_budget := Some n\<rparr>))"

section \<open>The streaming endpoint\<close>

definition model_name :: string where
  "model_name = ''gpt-4o-mini''"

definition chunk_frame :: "string \<Rightarrow> pydict" where
  "chunk_frame t = [(''type'', PStr ''chunk''), (''text'', PStr t)]"

definition done_frame :: pydict where
  "done_frame = [(''type'', PStr ''done'')]"

definition error_frame :: "string \<Rightarrow> pydict" where
  "error_frame m = [(''type'', PStr ''error''), (''text'', PStr m)]"

text \<open>The \<^verbatim>\<open>async for chunk in stream\<close> loop; it stops where \<^verbatim>\<open>send_text\<close> raises.\<close>

fun stream_chunks :: "env \<Rightarrow> chunk list \<Rightarrow> state \<Rightarrow> exn option \<times> state" where
  "stream_chunks E [] s = (None, s)"
| "stream_chunks E (choices # rest) s =
     (case choices of
        [] \<Rightarrow> stream_chunks E rest s
      | content # _ \<Rightarrow>
          (case content of
             None \<Rightarrow> stream_chunks E rest s
           | Some t \<Rightarrow>
               if t = [] then stream_chunks E rest s
               else (case send_text E (chunk_frame t) s of
                       (Some e, s') \<Rightarrow> (Some e, s')
                     | (None, s') \<Rightarrow> stream_chunks E rest s')))"

definition billing_record :: "string \<Rightarrow> real \<Rightarrow> string \<Rightarrow> pydict" where
  "billing_record sid duration_seconds stamp =
     [(''session_id'', PStr sid),
      (''duration_seconds'', PFloat (Finite (py_round duration_seconds 2))),
      (''model'', PStr model_name),
      (''timestamp'', PStr stamp)]"

text \<open>
  The body of the inner \<^verbatim>\<open>try\<close>. The result names the exception that left it, if any;
  what was sent or appended before stays.
\<close>

definition chat_try :: "env \<Rightarrow> world \<Rightarrow> pydict list \<Rightarrow> state \<Rightarrow> exn option \<times> state" where
  "chat_try E w messages s =
     (case get_openai_client (new_client w) s of
        (Some e, s1) \<Rightarrow> (Some e, s1)
      | (None, s1) \<Rightarrow>
          (let s2 = s1\<lparr>requests := requests s1 @ [(model_name, messages)]\<rparr>
           in case create w model_name messages of
                CreateRaises e \<Rightarrow> (Some e, s2)
              | Stream chunks fin \<Rightarrow>
                  (case stream_chunks E chunks s2 of
                     (Some e, s3) \<Rightarrow> (Some e, s3)
                   | (None, s3) \<Rightarrow>
                       (case fin of
                          StreamRaises e \<Rightarrow> (Some e, s3)
                        | EndOfStream \<Rightarrow>
                            (let duration_seconds = end_time w - start_time w;
                                 s4 = s3\<lparr>BILLING_RECORDS := BILLING_RECORDS s3 @
                                        [billing_record (session_id E) duration_seconds
                                           (gmtime_stamp w)]\<rparr>
                             in send_text E done_frame s4)))))"

text \<open>The inner \<^verbatim>\<open>except Exception as e\<close> clause.\<close>

definition chat_except :: "env \<Rightarrow> exn \<Rightarrow> state \<Rightarrow> exn option \<times> state" where
  "chat_except E e s =
     (let error_message = str e;
          error_message =
            (if sublist ''api_key'' (lower error_message)
             then ''OpenAI API key not configured. Please set OPENAI_API_KEY in Replit Secrets.''
             else error_message)
      in send_text E (error_frame error_message) s)"

text \<open>The two outer \<^verbatim>\<open>except\<close> clauses: the handler returns.\<close>

definition close :: "exn_class \<Rightarrow> state \<Rightarrow> state" where
  "close c s = s\<lparr>status := Closed c\<rparr>"

text \<open>
  One pass of \<^verbatim>\<open>while True\<close> after \<^verbatim>\<open>receive_text\<close> returned \<open>data\<close>. \<^verbatim>\<open>json.loads\<close>
  raising, and \<^verbatim>\<open>message.get\<close> on a value that is no dict (an \<^verbatim>\<open>AttributeError\<close>), are
  raised outside the inner \<^verbatim>\<open>try\<close> and leave the loop.
\<close>

definition on_text :: "env \<Rightarrow> string \<Rightarrow> world \<Rightarrow> state \<Rightarrow> state" where
  "on_text E data w s =
     (case loads E data of
        None \<Rightarrow> close OtherException s
      | Some (PDict message) \<Rightarrow>
          if dict_get message ''type'' PNone = PStr ''user_message'' then
            (let patient_text = dict_get message ''text'' (PStr []);
                 messages = build_messages patient_text PNone
             in case chat_try E w messages s of
                  (None, s') \<Rightarrow> s'
                | (Some e, s') \<Rightarrow>
                    (case chat_except E e s' of
                       (None, s'') \<Rightarrow> s''
                     | (Some e', s'') \<Rightarrow> close (class_of e') s''))
          else s
      | Some _ \<Rightarrow> close OtherException s)"

text \<open>
  \<^verbatim>\<open>websocket_chat\<close> from the state after \<^verbatim>\<open>accept\<close>, over what \<^verbatim>\<open>receive_text\<close> does
  call by call. When the list is used up the handler waits for the next frame.
\<close>

fun websocket_chat :: "env \<Rightarrow> inbound list \<Rightarrow> state \<Rightarrow> state" where
  "websocket_chat E [] s = s"
| "websocket_chat E (ev # evs) s =
     (case status s of
        Closed c \<Rightarrow> s
      | Idle \<Rightarrow>
          (case ev of
             ReceiveRaises e \<Rightarrow> close (class_of e) s
           | Text data w \<Rightarrow> websocket_chat E evs (on_text E data w s)))"

section \<open>The conversion endpoints\<close>

text \<open>
  What an endpoint hands back: a dict (serialised by the framework with status 200), or a
  \<^verbatim>\<open>Response\<close> whose content is \<^verbatim>\<open>json.dumps\<close> of a dict or raw bytes.
\<close>

datatype body = JsonDumps pydict | Bytes string

record response =
  content :: body
  status_code :: nat
  media_type :: string
  headers :: "(string \<times> string) list"

datatype endpoint_result = ReturnsDict pydict | ReturnsResponse response

text \<open>
  The world of one \<^verbatim>\<open>/api/stt\<close> request: the constructor of the client, what
  \<^verbatim>\<open>await audio.read()\<close> and \<^verbatim>\<open>audio.filename\<close> give, and the provider's answer to
  \<^verbatim>\<open>audio.transcriptions.create(model, file, response_format)\<close>, the file given by its
  name and content.
\<close>

record stt_world =
  stt_new_client :: "exn option"
  audio_read :: "exn + string"
  audio_filename :: "string option"
  transcriptions_create :: "string \<Rightarrow> string \<times> string \<Rightarrow> string \<Rightarrow> exn + string"

definition speech_to_text_try :: "stt_world \<Rightarrow> state \<Rightarrow> (exn + endpoint_result) \<times> state" where
  "speech_to_text_try W s =
     (case get_openai_client (stt_new_client W) s of
        (Some e, s1) \<Rightarrow> (Inl e, s1)
      | (None, s1) \<Rightarrow>
          (case audio_read W of
             Inl e \<Rightarrow> (Inl e, s1)
           | Inr audio_content \<Rightarrow>
               (let name = (case audio_filename W of
                              None \<Rightarrow> ''audio.webm''
                            | Some f \<Rightarrow> if f = [] then ''audio.webm'' else f)
                in case transcriptions_create W ''whisper-1'' (name, audio_content) ''text'' of
                     Inl e \<Rightarrow> (Inl e, s1)
                   | Inr transcription \<Rightarrow>
                       (Inr (ReturnsDict [(''text'', PStr transcription)]), s1))))"

definition speech_to_text_except :: "exn \<Rightarrow> endpoint_result" where
  "speech_to_text_except e =
     (let error_message = str e;
          error_message =
            (if sublist ''api_key'' (lower error_message)
             then ''OpenAI API key not configured''
             else error_message)
      in ReturnsResponse
           \<lparr>content = JsonDumps [(''error'', PStr error_message)],
            status_code = 500,
            media_type = ''application/json'',
            headers = []\<rparr>)"

definition speech_to_text :: "stt_world \<Rightarrow> state \<Rightarrow> endpoint_result \<times> state" where
  "speech_to_text W s =
     (case speech_to_text_try W s of
        (Inr r, s') \<Rightarrow> (r, s')
      | (Inl e, s') \<Rightarrow> (speech_to_text_except e, s'))"

text \<open>
  The world of one \<^verbatim>\<open>/api/tts\<close> request: the constructor of the client and the provider's
  answer to \<^verbatim>\<open>audio.speech.create(model, voice, input, response_format)\<close>, the content
  of the response on success.
\<close>

record tts_world =
  tts_new_client :: "exn option"
  speech_create :: "string \<Rightarrow> string \<Rightarrow> string \<Rightarrow> string \<Rightarrow> exn + string"

definition text_to_speech_try ::
    "tts_world \<Rightarrow> string \<Rightarrow> state \<Rightarrow> (exn + endpoint_result) \<times> state" where
  "text_to_speech_try W request_text s =
     (case get_openai_client (tts_new_client W) s of
        (Some e, s1) \<Rightarrow> (Inl e, s1)
      | (None, s1) \<Rightarrow>
          (case speech_create W ''tts-1'' ''nova'' request_text ''mp3'' of
             Inl e \<Rightarrow> (Inl e, s1)
           | Inr audio_bytes \<Rightarrow>
               (Inr (ReturnsResponse
                  \<lparr>content = Bytes audio_bytes,
                   status_code = 200,
                   media_type = ''audio/mpeg'',
                   headers = [(''Content-Disposition'', ''inline; filename=response.mp3'')]\<rparr>),
                s1)))"

definition text_to_speech_except :: "exn \<Rightarrow> endpoint_result" where
  "text_to_speech_except e =
     (let error_message = str e;
          error_message =
            (if sublist ''api_key'' (lower error_message)
             then ''OpenAI API key not configured''
             else error_message)
      in ReturnsResponse
           \<lparr>content = JsonDumps [(''error'', PStr error_message)],
            status_code = 500,
            media_type = ''application/json'',
            headers = []\<rparr>)"

definition text_to_speech :: "tts_world \<Rightarrow> string \<Rightarrow> state \<Rightarrow> endpoint_result \<times> state" where
  "text_to_speech W request_text s =
     (case text_to_speech_try W request_text s of
        (Inr r, s') \<Rightarrow> (r, s')
      | (Inl e, s') \<Rightarrow> (text_to_speech_except e, s'))"

section \<open>Vocabulary for the properties\<close>

text \<open>
  The text a chunk carries for the relay: the \<^verbatim>\<open>delta.content\<close> of its first choice, when
  there is a choice and the content is neither \<^verbatim>\<open>None\<close> nor empty.
\<close>

fun chunk_content :: "chunk \<Rightarrow> string option" where
  "chunk_content [] = None"
| "chunk_content (None # _) = None"
| "chunk_content (Some t # _) = (if t = [] then None else Some t)"

definition emitted_texts :: "chunk list \<Rightarrow> string list" where
  "emitted_texts cs = List.map_filter chunk_content cs"

text \<open>The client still takes \<open>k\<close> frames.\<close>

definition can_send :: "state \<Rightarrow> nat \<Rightarrow> bool" where
  "can_send s k = (case send_budget s of None \<Rightarrow> True | Some n \<Rightarrow> k \<le> n)"

text \<open>The connection after the client took as many of the frames \<open>fs\<close> as it still takes.\<close>

definition deliver :: "pydict list \<Rightarrow> state \<Rightarrow> state" where
  "deliver fs s =
     (case send_budget s of
        None \<Rightarrow> s\<lparr>sent := sent s @ fs\<rparr>
      | Some n \<Rightarrow> s\<lparr>sent := sent s @ take n fs, send_budget := Some (n - length fs)\<rparr>)"

text \<open>The text of the error frame for an exception whose \<^verbatim>\<open>str\<close> is \<open>m\<close>.\<close>

definition streaming_error_text :: "string \<Rightarrow> string" where
  "streaming_error_text m =
     (if sublist ''api_key'' (lower m)
      then ''OpenAI API key not configured. Please set OPENAI_API_KEY in Replit Secrets.''
      else m)"

text \<open>
  What the Completion Provider Client does in a turn that starts in state \<open>s\<close> with the
  messages \<open>msgs\<close>: the failure it raises, if any (building the client, creating the
  stream, or during the stream), and the chunks it delivers before.
\<close>

definition client_failure :: "world \<Rightarrow> state \<Rightarrow> exn option" where
  "client_failure w s = (if openai_client s then None else new_client w)"

definition provider_failure :: "world \<Rightarrow> state \<Rightarrow> pydict list \<Rightarrow> exn option" where
  "provider_failure w s msgs =
     (case client_failure w s of
        Some e \<Rightarrow> Some e
      | None \<Rightarrow>
          (case create w model_name msgs of
             CreateRaises e \<Rightarrow> Some e
           | Stream cs (StreamRaises e) \<Rightarrow> Some e
           | Stream cs EndOfStream \<Rightarrow> None))"

definition provider_chunks :: "world \<Rightarrow> state \<Rightarrow> pydict list \<Rightarrow> chunk list" where
  "provider_chunks w s msgs =
     (case client_failure w s of
        Some e \<Rightarrow> []
      | None \<Rightarrow>
          (case create w model_name msgs of
             CreateRaises e \<Rightarrow> []
           | Stream cs fin \<Rightarrow> cs))"

definition terminal_frame :: "exn option \<Rightarrow> pydict" where
  "terminal_frame pf =
     (case pf of None \<Rightarrow> done_frame | Some e \<Rightarrow> error_frame (streaming_error_text (str e)))"

text \<open>The record of a turn, and the messages of the turn a decoded frame \<open>m\<close> starts.\<close>

definition turn_record :: "env \<Rightarrow> world \<Rightarrow> pydict" where
  "turn_record E w = billing_record (session_id E) (end_time w - start_time w) (gmtime_stamp w)"

definition turn_messages :: "pydict \<Rightarrow> pydict list" where
  "turn_messages m = build_messages (dict_get m ''text'' (PStr [])) PNone"

text \<open>The kind of an outbound frame, and the frames a finished turn consists of.\<close>

definition frame_type :: "pydict \<Rightarrow> pyval" where
  "frame_type f = dict_get f ''type'' PNone"

definition is_chunk :: "pydict \<Rightarrow> bool" where
  "is_chunk f = (frame_type f = PStr ''chunk'')"

definition is_terminal :: "pydict \<Rightarrow> bool" where
  "is_terminal f = (frame_type f = PStr ''done'' \<or> frame_type f = PStr ''error'')"

definition turn_shape :: "pydict list \<Rightarrow> bool" where
  "turn_shape fs = (fs \<noteq> [] \<and> list_all is_chunk (butlast fs) \<and> is_terminal (last fs))"

text \<open>The frames sent between two states of a connection.\<close>

definition frames_since :: "state \<Rightarrow> state \<Rightarrow> pydict list" where
  "frames_since s s' = drop (length (sent s)) (sent s')"

section \<open>Sample connections\<close>

text \<open>
  Concrete inputs for the properties below: seven frames and \<^verbatim>\<open>json.loads\<close> on them (it
  raises on the last, and on every other text in this sample); worlds in which the
  provider streams a reply (long or short), fails in mid-stream, or has no credential, for
  the chat and for the two conversions; a world whose clock steps back; the state after
  \<^verbatim>\<open>accept\<close> in a fresh process, and the same with a client that takes two more frames,
  three more frames, or none; a world in which the provider refuses the request.
\<close>

definition hello_frame :: string where
  \<open>hello_frame = ''{"type":"user_message","text":"hello"}''\<close>

definition model_frame :: string where
  \<open>model_frame = ''{"type":"user_message","text":"gpt-4o-mini"}''\<close>

definition empty_text_frame :: string where
  \<open>empty_text_frame = ''{"type":"user_message","text":""}''\<close>

definition no_text_frame :: string where
  \<open>no_text_frame = ''{"type":"user_message"}''\<close>

definition ping_frame :: string where
  \<open>ping_frame = ''{"type":"ping"}''\<close>

definition list_frame :: string where
  "list_frame = ''[1]''"

definition garbage_frame :: string where
  "garbage_frame = ''not json''"

definition hello_message :: pydict where
  "hello_message = [(''type'', PStr ''user_message''), (''text'', PStr ''hello'')]"

definition sample_loads :: "string \<Rightarrow> pyval option" where
  "sample_loads data =
     (if data = hello_frame
        then Some (PDict hello_message)
      else if data = model_frame
        then Some (PDict [(''type'', PStr ''user_message''), (''text'', PStr ''gpt-4o-mini'')])
      else if data = empty_text_frame
        then Some (PDict [(''type'', PStr ''user_message''), (''text'', PStr [])])
      else if data = no_text_frame
        then Some (PDict [(''type'', PStr ''user_message'')])
      else if data = ping_frame
        then Some (PDict [(''type'', PStr ''ping'')])
      else if data = list_frame
        then Some (PList [PInt 1])
      else None)"

definition sample_env :: env where
  "sample_env =
     \<lparr>loads = sample_loads,
      session_id = ''1b4e28ba-2fa1-41d2-883f-0016d3cca427'',
      send_error = Exn WebSocketDisconnect []\<rparr>"

definition sample_chunks :: "chunk list" where
  "sample_chunks = [[Some ''Hel''], [], [None], [Some ''lo, ''], [Some []], [Some ''world'']]"

definition sample_world :: world where
  "sample_world =
     \<lparr>new_client = None,
      start_time = 100,
      create = (\<lambda>model messages. Stream sample_chunks EndOfStream),
      end_time = 101.237,
      gmtime_stamp = ''2025-01-01 12:00:01''\<rparr>"


definition rate_limit :: exn where
  "rate_limit = Exn OtherException ''Rate limit reached''"

definition failing_world :: world where
  "failing_world =
     sample_world\<lparr>create := (\<lambda>model messages.
        Stream [[Some ''Hel'']] (StreamRaises rate_limit))\<rparr>"




definition terse_world :: world where
  "terse_world =
     sample_world\<lparr>create := (\<lambda>model messages. Stream [[Some ''Hi'']] EndOfStream)\<rparr>"

definition backwards_world :: world where
  "backwards_world = sample_world\<lparr>start_time := 2, end_time := 1\<rparr>"

definition fresh :: state where
  "fresh =
     \<lparr>status = Idle, sent = [], send_budget = None, BILLING_RECORDS = [],
      openai_client = False, requests = []\<rparr>"

definition leaving :: state where
  "leaving = fresh\<lparr>send_budget := Some 2\<rparr>"

definition leaving_before_done :: state where
  "leaving_before_done = fresh\<lparr>send_budget := Some 3\<rparr>"

definition gone :: state where
  "gone = fresh\<lparr>send_budget := Some 0\<rparr>"

definition refused_world :: world where
  "refused_world = sample_world\<lparr>create := (\<lambda>model messages. CreateRaises rate_limit)\<rparr>"

section \<open>Properties\<close>

subsection \<open>Sending frames\<close>

lemma emitted_texts_simps [simp]:
  "emitted_texts [] = []"
  "emitted_texts (c # cs) =
     (case chunk_content c of None \<Rightarrow> emitted_texts cs | Some t \<Rightarrow> t # emitted_texts cs)"
  by (simp_all add: emitted_texts_def split: option.splits)

lemma deliver_Nil [simp]: "deliver [] s = s"
  by (cases s) (simp add: deliver_def split: option.splits)

lemma deliver_budget0: "send_budget s = Some 0 \<Longrightarrow> deliver fs s = s"
  by (cases s) (simp add: deliver_def)

lemma send_text_eq:
  "send_text E f s = (if can_send s 1 then None else Some (send_error E), deliver [f] s)"
  by (cases s) (auto simp: send_text_def can_send_def deliver_def split: option.splits nat.splits)

lemma deliver_deliver: "deliver fs (deliver gs s) = deliver (gs @ fs) s"
  by (cases s) (auto simp: deliver_def split: option.splits)

lemma can_send_deliver:
  "can_send (deliver gs s) k \<longleftrightarrow>
     (if can_send s (length gs) then can_send s (length gs + k) else k = 0)"
  by (cases s) (auto simp: deliver_def can_send_def split: option.splits)

lemma deliver_indep:
  "\<not> can_send s (Suc (length fs)) \<Longrightarrow> deliver (fs @ xs) s = deliver fs s"
  by (cases s) (auto simp: deliver_def can_send_def split: option.splits)

lemma deliver_stuck:
  "\<not> can_send s (length fs) \<Longrightarrow> deliver (fs @ xs) s = deliver fs s"
  by (cases s) (auto simp: deliver_def can_send_def split: option.splits)

lemma sent_deliver_ok: "can_send s (length fs) \<Longrightarrow> sent (deliver fs s) = sent s @ fs"
  by (cases s) (auto simp: deliver_def can_send_def split: option.splits)

lemma sent_deliver:
  "sent (deliver fs s) =
     sent s @ (case send_budget s of None \<Rightarrow> fs | Some n \<Rightarrow> take n fs)"
  by (cases s) (auto simp: deliver_def split: option.splits)

lemma can_send_globals [simp]:
  "can_send (s\<lparr>BILLING_RECORDS := b\<rparr>) k = can_send s k"
  "can_send (s\<lparr>openai_client := c\<rparr>) k = can_send s k"
  "can_send (s\<lparr>requests := r\<rparr>) k = can_send s k"
  by (simp_all add: can_send_def)

lemma deliver_globals:
  "deliver fs (s\<lparr>BILLING_RECORDS := b\<rparr>) = (deliver fs s)\<lparr>BILLING_RECORDS := b\<rparr>"
  "deliver fs (s\<lparr>openai_client := c\<rparr>) = (deliver fs s)\<lparr>openai_client := c\<rparr>"
  "deliver fs (s\<lparr>requests := r\<rparr>) = (deliver fs s)\<lparr>requests := r\<rparr>"
  by (simp_all add: deliver_def split: option.splits)

lemma deliver_fields [simp]:
  "BILLING_RECORDS (deliver fs s) = BILLING_RECORDS s"
  "openai_client (deliver fs s) = openai_client s"
  "requests (deliver fs s) = requests s"
  "status (deliver fs s) = status s"
  by (simp_all add: deliver_def split: option.splits)

lemma stream_chunks_eq:
  "stream_chunks E cs s =
     (if can_send s (length (emitted_texts cs)) then None else Some (send_error E),
      deliver (map chunk_frame (emitted_texts cs)) s)"
proof (induction cs arbitrary: s)
  case Nil
  show ?case by (simp add: can_send_def split: option.splits)
next
  case (Cons c cs)
  show ?case
  proof (cases "chunk_content c")
    case None
    then have "stream_chunks E (c # cs) s = stream_chunks E cs s"
      by (cases c rule: chunk_content.cases) (simp_all split: if_splits)
    with None Cons.IH show ?thesis by simp
  next
    case (Some t)
    then have c: "stream_chunks E (c # cs) s =
        (case send_text E (chunk_frame t) s of
           (Some e, s') \<Rightarrow> (Some e, s')
         | (None, s') \<Rightarrow> stream_chunks E cs s')"
      by (cases c rule: chunk_content.cases) (simp_all split: if_splits)
    show ?thesis
    proof (cases "can_send s 1")
      case True
      then show ?thesis
        using Some unfolding c
        by (simp add: send_text_eq Cons.IH deliver_deliver can_send_deliver)
    next
      case False
      then have b: "send_budget s = Some 0"
        by (auto simp: can_send_def split: option.splits)
      with False show ?thesis
        using Some unfolding c by (simp add: send_text_eq can_send_def deliver_budget0)
    qed
  qed
qed

lemma chat_except_eq:
  "chat_except E e s = send_text E (error_frame (streaming_error_text (str e))) s"
  by (simp add: chat_except_def streaming_error_text_def Let_def)

lemma frame_types [simp]:
  "frame_type (chunk_frame t) = PStr ''chunk''"
  "frame_type done_frame = PStr ''done''"
  "frame_type (error_frame m) = PStr ''error''"
  by (simp_all add: frame_type_def chunk_frame_def done_frame_def error_frame_def dict_get_def)

lemma terminal_frame_is_terminal [simp]: "is_terminal (terminal_frame pf)"
  by (simp add: terminal_frame_def is_terminal_def split: option.splits)

lemma chunk_frames_not_terminal [simp]: "filter is_terminal (map chunk_frame ts) = []"
  by (induction ts) (simp_all add: is_terminal_def)

lemma chunk_frames_are_chunks [simp]: "list_all is_chunk (map chunk_frame ts)"
  by (induction ts) (simp_all add: is_chunk_def)

lemma length_filter_take: "length (filter P (take n xs)) \<le> length (filter P xs)"
proof -
  have "filter P xs = filter P (take n xs) @ filter P (drop n xs)"
    by (metis append_take_drop_id filter_append)
  then show ?thesis by simp
qed

subsection \<open>One pass of the receive loop\<close>

lemma get_openai_client_eq:
  "get_openai_client (new_client w) s =
     (client_failure w s,
      s\<lparr>openai_client := (openai_client s \<or> new_client w = None)\<rparr>)"
  by (cases s) (auto simp: get_openai_client_def client_failure_def split: option.splits)

lemma provider_Stream:
  assumes "openai_client s \<or> new_client w = None"
    and "create w model_name msgs = Stream cs fin"
  shows "provider_chunks w s msgs = cs"
    and "provider_failure w s msgs = (case fin of EndOfStream \<Rightarrow> None | StreamRaises e \<Rightarrow> Some e)"
    and "client_failure w s = None"
  using assms
  by (auto simp: provider_chunks_def provider_failure_def client_failure_def
      split: stream_end.splits)

lemma chat_try_eq:
  "chat_try E w msgs s =
     (let pf = provider_failure w s msgs;
          fs = map chunk_frame (emitted_texts (provider_chunks w s msgs));
          g = s\<lparr>openai_client := (openai_client s \<or> new_client w = None),
                 requests := requests s @
                   (if client_failure w s = None then [(model_name, msgs)] else []),
                 BILLING_RECORDS := BILLING_RECORDS s @
                   (if pf = None \<and> can_send s (length fs) then [turn_record E w] else [])\<rparr>
      in (if \<not> can_send s (length fs) then Some (send_error E)
          else if pf \<noteq> None then pf
          else if can_send s (length fs + 1) then None else Some (send_error E),
          deliver (fs @ (if pf = None then [done_frame] else [])) g))"
proof (cases "client_failure w s")
  case (Some e)
  then show ?thesis
    by (simp add: chat_try_def get_openai_client_eq provider_failure_def provider_chunks_def
        can_send_def split: option.splits)
next
  case None
  note cf = None
  show ?thesis
  proof (cases "create w model_name msgs")
    case (CreateRaises e)
    with cf show ?thesis
      by (simp add: chat_try_def get_openai_client_eq provider_failure_def provider_chunks_def
          can_send_def split: option.splits)
  next
    case (Stream cs fin)
    show ?thesis
    proof (cases fin)
      case (StreamRaises e)
      with cf Stream show ?thesis
        by (simp add: chat_try_def get_openai_client_eq provider_failure_def
            provider_chunks_def stream_chunks_eq deliver_globals)
    next
      case EndOfStream
      with cf Stream show ?thesis
        by (simp add: chat_try_def get_openai_client_eq provider_failure_def
            provider_chunks_def stream_chunks_eq send_text_eq deliver_deliver can_send_deliver
            deliver_globals(1) [symmetric] turn_record_def Let_def deliver_stuck)
    qed
  qed
qed

lemma on_text_accepted:
  assumes "loads E data = Some (PDict m)"
    and "dict_get m ''type'' PNone = PStr ''user_message''"
  shows "on_text E data w s =
     (let msgs = turn_messages m;
          pf = provider_failure w s msgs;
          fs = map chunk_frame (emitted_texts (provider_chunks w s msgs));
          g = s\<lparr>openai_client := (openai_client s \<or> new_client w = None),
                 requests := requests s @
                   (if client_failure w s = None then [(model_name, msgs)] else []),
                 BILLING_RECORDS := BILLING_RECORDS s @
                   (if pf = None \<and> can_send s (length fs) then [turn_record E w] else [])\<rparr>;
          s' = deliver (fs @ [terminal_frame pf]) g
      in if can_send s (length fs + 1) then s' else close (class_of (send_error E)) s')"
proof -
  define msgs where "msgs = turn_messages m"
  define pf where "pf = provider_failure w s msgs"
  define fs where "fs = map chunk_frame (emitted_texts (provider_chunks w s msgs))"
  define g where "g = s\<lparr>openai_client := (openai_client s \<or> new_client w = None),
                 requests := requests s @
                   (if client_failure w s = None then [(model_name, msgs)] else []),
                 BILLING_RECORDS := BILLING_RECORDS s @
                   (if pf = None \<and> can_send s (length fs) then [turn_record E w] else [])\<rparr>"
  have cg: "can_send g k = can_send s k" for k
    by (simp add: g_def)
  have attempt: "chat_try E w msgs s =
      (if \<not> can_send s (length fs) then Some (send_error E)
       else if pf \<noteq> None then pf
       else if can_send s (length fs + 1) then None else Some (send_error E),
       deliver (fs @ (if pf = None then [done_frame] else [])) g)"
    unfolding chat_try_eq pf_def fs_def g_def by (simp add: Let_def)
  have body: "on_text E data w s =
      (case chat_try E w msgs s of
         (None, s') \<Rightarrow> s'
       | (Some e, s') \<Rightarrow>
           (case chat_except E e s' of
              (None, s'') \<Rightarrow> s''
            | (Some e', s'') \<Rightarrow> close (class_of e') s''))"
    using assms by (simp add: on_text_def msgs_def turn_messages_def)
  have "on_text E data w s =
      (if can_send s (length fs + 1) then deliver (fs @ [terminal_frame pf]) g
       else close (class_of (send_error E)) (deliver (fs @ [terminal_frame pf]) g))"
  proof (cases "can_send s (length fs)")
    case False
    then have "\<not> can_send s (length fs + 1)"
      by (auto simp: can_send_def split: option.splits)
    with False show ?thesis
      unfolding body attempt
      by (simp add: chat_except_eq send_text_eq can_send_deliver cg deliver_deliver
          deliver_stuck)
  next
    case True
    note cs = True
    show ?thesis
    proof (cases pf)
      case (Some e)
      with cs show ?thesis
        unfolding body attempt
        by (simp add: chat_except_eq send_text_eq can_send_deliver cg deliver_deliver
            terminal_frame_def)
    next
      case None
      show ?thesis
      proof (cases "can_send s (length fs + 1)")
        case True
        with cs None show ?thesis
          unfolding body attempt by (simp add: terminal_frame_def)
      next
        case False
        then have "\<not> can_send g (Suc (length fs))"
          by (simp add: cg)
        then have "deliver (fs @ xs) g = deliver fs g" for xs
          by (rule deliver_indep)
        with cs None False show ?thesis
          unfolding body attempt
          by (simp add: chat_except_eq send_text_eq can_send_deliver cg deliver_deliver)
      qed
    qed
  qed
  then show ?thesis
    by (simp add: Let_def msgs_def pf_def fs_def g_def)
qed

lemma turn_ledger:
  assumes "loads E data = Some (PDict m)"
    and "dict_get m ''type'' PNone = PStr ''user_message''"
  shows "BILLING_RECORDS (on_text E data w s) =
     BILLING_RECORDS s @
       (if provider_failure w s (turn_messages m) = None
           \<and> can_send s (length (emitted_texts (provider_chunks w s (turn_messages m))))
        then [turn_record E w] else [])"
  by (simp add: on_text_accepted [OF assms] Let_def close_def)

lemma completed_ledger:
  assumes "loads E data = Some (PDict m)"
    and "dict_get m ''type'' PNone = PStr ''user_message''"
    and "provider_failure w s (turn_messages m) = None"
    and "can_send s (length (emitted_texts (provider_chunks w s (turn_messages m))))"
  shows "BILLING_RECORDS (on_text E data w s) = BILLING_RECORDS s @ [turn_record E w]"
  using assms(3,4) by (simp add: turn_ledger [OF assms(1,2)])

lemma turn_status:
  assumes "loads E data = Some (PDict m)"
    and "dict_get m ''type'' PNone = PStr ''user_message''"
  shows "status (on_text E data w s) =
     (if can_send s (Suc (length (emitted_texts (provider_chunks w s (turn_messages m)))))
      then status s else Closed (class_of (send_error E)))"
  by (simp add: on_text_accepted [OF assms] Let_def close_def)

lemma turn_sent:
  assumes "loads E data = Some (PDict m)"
    and "dict_get m ''type'' PNone = PStr ''user_message''"
  shows "sent (on_text E data w s) =
     sent s @
       (let fs = map chunk_frame (emitted_texts (provider_chunks w s (turn_messages m))) @
                   [terminal_frame (provider_failure w s (turn_messages m))]
        in case send_budget s of None \<Rightarrow> fs | Some n \<Rightarrow> take n fs)"
  by (simp add: on_text_accepted [OF assms] Let_def close_def sent_deliver)

lemma turn_requests:
  assumes "loads E data = Some (PDict m)"
    and "dict_get m ''type'' PNone = PStr ''user_message''"
  shows "requests (on_text E data w s) =
     requests s @ (if client_failure w s = None then [(model_name, turn_messages m)] else [])"
  by (simp add: on_text_accepted [OF assms] Let_def close_def)

lemma turn_frames:
  assumes "loads E data = Some (PDict m)"
    and "dict_get m ''type'' PNone = PStr ''user_message''"
    and "can_send s (Suc (length (emitted_texts (provider_chunks w s (turn_messages m)))))"
  shows "frames_since s (on_text E data w s) =
     map chunk_frame (emitted_texts (provider_chunks w s (turn_messages m))) @
       [terminal_frame (provider_failure w s (turn_messages m))]"
  using assms(3)
  by (simp add: turn_sent [OF assms(1,2)] frames_since_def Let_def can_send_def
      split: option.splits)

lemma on_text_ignored:
  "loads E data = Some (PDict m) \<Longrightarrow> dict_get m ''type'' PNone \<noteq> PStr ''user_message''
   \<Longrightarrow> on_text E data w s = s"
  by (simp add: on_text_def)

lemma on_text_not_dict:
  "(\<And>m. loads E data \<noteq> Some (PDict m)) \<Longrightarrow> on_text E data w s = close OtherException s"
  by (auto simp: on_text_def split: option.splits pyval.splits)

lemma stream_chunks_completes:
  "fst (stream_chunks E cs s) = None \<longleftrightarrow> can_send s (length (emitted_texts cs))"
  by (simp add: stream_chunks_eq)

lemma turn_frames_cut:
  assumes "loads E data = Some (PDict m)"
    and "dict_get m ''type'' PNone = PStr ''user_message''"
    and "texts = emitted_texts (provider_chunks w s (turn_messages m))"
    and "\<not> can_send s (Suc (length texts))"
  shows "\<exists>n. send_budget s = Some n \<and> n \<le> length texts
           \<and> frames_since s (on_text E data w s) = take n (map chunk_frame texts)"
proof -
  from assms(4) obtain n where n: "send_budget s = Some n" "n \<le> length texts"
    by (auto simp: can_send_def split: option.splits)
  have "frames_since s (on_text E data w s) = take n (map chunk_frame texts)"
    using n by (simp add: frames_since_def turn_sent [OF assms(1,2)] Let_def assms(3))
  with n show ?thesis by blast
qed

lemma take_chunk_frames_not_terminal: "filter is_terminal (take n (map chunk_frame ts)) = []"
  by (simp add: take_map)

subsection \<open>The ledger only grows\<close>

lemma on_text_ledger_prefix: "prefix (BILLING_RECORDS s) (BILLING_RECORDS (on_text E data w s))"
proof (cases "\<exists>m. loads E data = Some (PDict m)")
  case False
  then show ?thesis by (simp add: on_text_not_dict close_def)
next
  case True
  then obtain m where m: "loads E data = Some (PDict m)" by blast
  show ?thesis
  proof (cases "dict_get m ''type'' PNone = PStr ''user_message''")
    case True
    show ?thesis by (simp add: turn_ledger [OF m True])
  next
    case False
    show ?thesis by (simp add: on_text_ignored [OF m False])
  qed
qed

lemma websocket_chat_ledger_prefix:
  "prefix (BILLING_RECORDS s) (BILLING_RECORDS (websocket_chat E evs s))"
proof (induction evs arbitrary: s)
  case Nil
  show ?case by simp
next
  case (Cons ev evs)
  show ?case
  proof (cases ev)
    case (ReceiveRaises e)
    then show ?thesis by (simp add: close_def split: status.splits)
  next
    case (Text data w)
    have "prefix (BILLING_RECORDS s) (BILLING_RECORDS (on_text E data w s))"
      by (rule on_text_ledger_prefix)
    also have "prefix \<dots> (BILLING_RECORDS (websocket_chat E evs (on_text E data w s)))"
      by (rule Cons.IH)
    finally show ?thesis
      using Text by (simp split: status.splits)
  qed
qed

lemma conversions_keep_ledger:
  "BILLING_RECORDS (snd (speech_to_text W s)) = BILLING_RECORDS s"
  "BILLING_RECORDS (snd (text_to_speech V t s)) = BILLING_RECORDS s"
  by (auto simp: speech_to_text_def speech_to_text_try_def text_to_speech_def
      text_to_speech_try_def get_openai_client_def Let_def
      split: option.splits sum.splits prod.splits if_splits)

subsection \<open>Rounding\<close>

lemma py_round_centi: "\<exists>k::int. py_round x 2 = of_int k / 100"
  by (auto simp: py_round_def)

lemma round_half_even_nonneg: "0 \<le> x \<Longrightarrow> 0 \<le> round_half_even x"
  by (simp add: round_half_even_def Let_def)

lemma py_round_nonneg: "0 \<le> x \<Longrightarrow> 0 \<le> py_round x n"
  by (simp add: py_round_def round_half_even_nonneg)

subsection \<open>The sample connections\<close>

lemma fresh_fields [simp]:
  "status fresh = Idle" "sent fresh = []" "BILLING_RECORDS fresh = []"
  "\<not> openai_client fresh" "requests fresh = []" "can_send fresh k"
  by (simp_all add: fresh_def can_send_def)

lemma sample_hello:
  "loads sample_env hello_frame = Some (PDict hello_message)"
  "dict_get hello_message ''type'' PNone = PStr ''user_message''"
  "turn_messages hello_message = build_messages (PStr ''hello'') PNone"
  by (simp_all add: sample_env_def sample_loads_def hello_message_def dict_get_def
      turn_messages_def)

lemma sample_model:
  "loads sample_env model_frame =
     Some (PDict [(''type'', PStr ''user_message''), (''text'', PStr ''gpt-4o-mini'')])"
  "dict_get [(''type'', PStr ''user_message''), (''text'', PStr ''gpt-4o-mini'')] ''type'' PNone =
     PStr ''user_message''"
  by (simp_all add: sample_env_def sample_loads_def dict_get_def model_frame_def hello_frame_def)

lemma sample_no_text:
  "loads sample_env no_text_frame = Some (PDict [(''type'', PStr ''user_message'')])"
  "loads sample_env empty_text_frame =
     Some (PDict ([(''type'', PStr ''user_message'')] @ [(''text'', PStr [])]))"
  "dict_get [(''type'', PStr ''user_message'')] ''type'' PNone = PStr ''user_message''"
  "map_of [(''type'', PStr ''user_message'')] ''text'' = None"
  by (simp_all add: sample_env_def sample_loads_def dict_get_def no_text_frame_def
      empty_text_frame_def hello_frame_def model_frame_def)

lemma sample_unaccepted:
  "loads sample_env ping_frame = Some (PDict [(''type'', PStr ''ping'')])"
  "loads sample_env garbage_frame = None"
  "loads sample_env list_frame = Some (PList [PInt 1])"
  by (simp_all add: sample_env_def sample_loads_def ping_frame_def garbage_frame_def list_frame_def
      hello_frame_def model_frame_def empty_text_frame_def no_text_frame_def)

lemma sample_texts: "emitted_texts sample_chunks = [''Hel'', ''lo, '', ''world'']"
  by (simp add: sample_chunks_def)

lemma sample_fields:
  "session_id sample_env = ''1b4e28ba-2fa1-41d2-883f-0016d3cca427''"
  "gmtime_stamp sample_world = ''2025-01-01 12:00:01''"
  "py_round (end_time sample_world - start_time sample_world) 2 = 1.24"
  by (simp_all add: sample_env_def sample_world_def py_round_def round_half_even_def)

lemma sample_completes:
  "provider_failure sample_world fresh msgs = None"
  "provider_chunks sample_world fresh msgs = sample_chunks"
  "provider_failure backwards_world fresh msgs = None"
  "provider_chunks backwards_world fresh msgs = sample_chunks"
  by (simp_all add: provider_failure_def provider_chunks_def client_failure_def
      backwards_world_def sample_world_def)

lemma terse_completes:
  "provider_failure terse_world fresh msgs = None"
  "provider_chunks terse_world fresh msgs = [[Some ''Hi'']]"
  "gmtime_stamp terse_world = ''2025-01-01 12:00:01''"
  "py_round (end_time terse_world - start_time terse_world) 2 = 1.24"
  by (simp_all add: provider_failure_def provider_chunks_def client_failure_def
      terse_world_def sample_world_def py_round_def round_half_even_def)

lemma leaving_fields [simp]:
  "send_budget leaving = Some 2" "\<not> openai_client leaving" "status leaving = Idle"
  "sent leaving = []" "BILLING_RECORDS leaving = []"
  by (simp_all add: leaving_def fresh_def)

lemma sample_leaving:
  "sent (on_text sample_env hello_frame sample_world leaving) =
     [chunk_frame ''Hel'', chunk_frame ''lo, '']"
  "status (on_text sample_env hello_frame sample_world leaving) = Closed WebSocketDisconnect"
  "BILLING_RECORDS (on_text sample_env hello_frame sample_world leaving) = []"
proof -
  have p: "provider_failure sample_world leaving msgs = None"
    "provider_chunks sample_world leaving msgs = sample_chunks" for msgs
    by (simp_all add: provider_failure_def provider_chunks_def client_failure_def
        sample_world_def)
  have e: "class_of (send_error sample_env) = WebSocketDisconnect"
    by (simp add: sample_env_def)
  show "sent (on_text sample_env hello_frame sample_world leaving) =
     [chunk_frame ''Hel'', chunk_frame ''lo, '']"
    by (simp add: turn_sent [OF sample_hello(1,2)] p sample_texts)
  show "status (on_text sample_env hello_frame sample_world leaving) = Closed WebSocketDisconnect"
    by (simp add: turn_status [OF sample_hello(1,2)] p sample_texts can_send_def e)
  show "BILLING_RECORDS (on_text sample_env hello_frame sample_world leaving) = []"
    by (simp add: turn_ledger [OF sample_hello(1,2)] p sample_texts can_send_def)
qed

lemma budget_fields [simp]:
  "send_budget leaving_before_done = Some 3" "\<not> openai_client leaving_before_done"
  "status leaving_before_done = Idle" "sent leaving_before_done = []"
  "BILLING_RECORDS leaving_before_done = []"
  "send_budget gone = Some 0" "\<not> openai_client gone" "status gone = Idle" "sent gone = []"
  "BILLING_RECORDS gone = []"
  by (simp_all add: leaving_before_done_def gone_def fresh_def)

lemma sample_any_state:
  "\<not> openai_client s \<Longrightarrow> provider_failure sample_world s msgs = None"
  "\<not> openai_client s \<Longrightarrow> provider_chunks sample_world s msgs = sample_chunks"
  "\<not> openai_client s \<Longrightarrow> provider_failure refused_world s msgs = Some rate_limit"
  "\<not> openai_client s \<Longrightarrow> provider_chunks refused_world s msgs = []"
  "class_of (send_error sample_env) = WebSocketDisconnect"
  "create sample_world model_name msgs = Stream sample_chunks EndOfStream"
  "new_client sample_world = None"
  by (simp_all add: provider_failure_def provider_chunks_def client_failure_def
      sample_world_def refused_world_def sample_env_def)

lemma sample_failing:
  "provider_failure failing_world fresh msgs = Some rate_limit"
  "provider_chunks failing_world fresh msgs = [[Some ''Hel'']]"
  "str rate_limit = ''Rate limit reached''"
  by (simp_all add: provider_failure_def provider_chunks_def client_failure_def
      failing_world_def sample_world_def rate_limit_def)

lemma rate_limit_text: "streaming_error_text ''Rate limit reached'' = ''Rate limit reached''"
  by (simp add: streaming_error_text_def lower_def lower_char_def sublist_code(3) char_of_eq_iff)




section \<open>The claims\<close>

text \<open>
  C1, as the code has it. The record appended by a completed turn is built from the
  session id, the two clock readings and the formatted UTC time only. Two runs from the
  same state that differ in the utterance and in what the provider streams append records
  with the same fields \<^verbatim>\<open>session_id\<close>, \<^verbatim>\<open>duration_seconds\<close>, \<^verbatim>\<open>model\<close> and \<^verbatim>\<open>timestamp\<close>, the
  same session id and the same model; with the same clock readings the two records are
  equal.
\<close>

theorem billing_record_independent_of_content:
  assumes "loads E data1 = Some (PDict m1)"
    and "dict_get m1 ''type'' PNone = PStr ''user_message''"
    and "loads E data2 = Some (PDict m2)"
    and "dict_get m2 ''type'' PNone = PStr ''user_message''"
    and "provider_failure w1 s (turn_messages m1) = None"
    and "can_send s (length (emitted_texts (provider_chunks w1 s (turn_messages m1))))"
    and "provider_failure w2 s (turn_messages m2) = None"
    and "can_send s (length (emitted_texts (provider_chunks w2 s (turn_messages m2))))"
    and "r1 = [(''session_id'', PStr (session_id E)),
               (''duration_seconds'', PFloat (Finite (py_round (end_time w1 - start_time w1) 2))),
               (''model'', PStr ''gpt-4o-mini''),
               (''timestamp'', PStr (gmtime_stamp w1))]"
    and "r2 = [(''session_id'', PStr (session_id E)),
               (''duration_seconds'', PFloat (Finite (py_round (end_time w2 - start_time w2) 2))),
               (''model'', PStr ''gpt-4o-mini''),
               (''timestamp'', PStr (gmtime_stamp w2))]"
  shows "BILLING_RECORDS (on_text E data1 w1 s) = BILLING_RECORDS s @ [r1]
       \<and> BILLING_RECORDS (on_text E data2 w2 s) = BILLING_RECORDS s @ [r2]
       \<and> map fst r1 = [''session_id'', ''duration_seconds'', ''model'', ''timestamp'']
       \<and> map fst r2 = map fst r1
       \<and> map_of r2 ''session_id'' = map_of r1 ''session_id''
       \<and> map_of r2 ''model'' = map_of r1 ''model''
       \<and> (start_time w1 = start_time w2 \<and> end_time w1 = end_time w2
            \<and> gmtime_stamp w1 = gmtime_stamp w2 \<longrightarrow> r2 = r1)"
  by (simp add: completed_ledger [OF assms(1,2,5,6)] completed_ledger [OF assms(3,4,7,8)]
      turn_record_def billing_record_def model_name_def assms(9,10))

theorem billing_record_independent_of_content_witness:
  "BILLING_RECORDS (on_text sample_env hello_frame sample_world fresh) =
     [[(''session_id'', PStr ''1b4e28ba-2fa1-41d2-883f-0016d3cca427''),
       (''duration_seconds'', PFloat (Finite 1.24)),
       (''model'', PStr ''gpt-4o-mini''),
       (''timestamp'', PStr ''2025-01-01 12:00:01'')]]
   \<and> BILLING_RECORDS (on_text sample_env model_frame terse_world fresh) =
     [[(''session_id'', PStr ''1b4e28ba-2fa1-41d2-883f-0016d3cca427''),
       (''duration_seconds'', PFloat (Finite 1.24)),
       (''model'', PStr ''gpt-4o-mini''),
       (''timestamp'', PStr ''2025-01-01 12:00:01'')]]"
proof -
  have c1: "can_send fresh (length (emitted_texts
      (provider_chunks sample_world fresh (turn_messages hello_message))))"
    by simp
  have c2: "can_send fresh (length (emitted_texts (provider_chunks terse_world fresh
      (turn_messages [(''type'', PStr ''user_message''), (''text'', PStr ''gpt-4o-mini'')]))))"
    by simp
  from billing_record_independent_of_content [OF sample_hello(1,2) sample_model
      sample_completes(1) c1 terse_completes(1) c2 refl refl]
  show ?thesis
    by (simp add: sample_fields terse_completes(3,4))
qed

text \<open>
  C1 as stated fails on its last part. No text of the turn is copied into the record, but
  a text of the turn can occur in a field other than the session id: the utterance
  \<^verbatim>\<open>gpt-4o-mini\<close> is the \<^verbatim>\<open>model\<close> field of the record of its own turn.
\<close>

theorem utterance_occurs_in_record:
  "loads sample_env model_frame =
     Some (PDict [(''type'', PStr ''user_message''), (''text'', PStr ''gpt-4o-mini'')])
   \<and> BILLING_RECORDS (on_text sample_env model_frame sample_world fresh) =
       [[(''session_id'', PStr ''1b4e28ba-2fa1-41d2-883f-0016d3cca427''),
         (''duration_seconds'', PFloat (Finite 1.24)),
         (''model'', PStr ''gpt-4o-mini''),
         (''timestamp'', PStr ''2025-01-01 12:00:01'')]]
   \<and> sublist ''gpt-4o-mini'' ''gpt-4o-mini''"
proof -
  have c: "can_send fresh (length (emitted_texts (provider_chunks sample_world fresh
      (turn_messages [(''type'', PStr ''user_message''), (''text'', PStr ''gpt-4o-mini'')]))))"
    by simp
  show ?thesis
    by (simp add: completed_ledger [OF sample_model sample_completes(1) c] turn_record_def
        billing_record_def sample_fields model_name_def sample_model(1))
qed

text \<open>
  C2, as the code has it. A turn whose provider stream the handler consumes to its natural
  end (the loop over the stream is left without an exception) appends exactly one record,
  with exactly the fields \<^verbatim>\<open>session_id\<close>, \<^verbatim>\<open>duration_seconds\<close> (the elapsed time rounded to
  two decimal places), \<^verbatim>\<open>model\<close> and \<^verbatim>\<open>timestamp\<close> (the UTC time as formatted by
  \<^verbatim>\<open>strftime\<close>), after one chunk frame for each chunk with content. Only then it sends the
  \<^verbatim>\<open>done\<close> frame. While the client takes one more frame, exactly one \<^verbatim>\<open>done\<close> frame is sent
  and the handler is back at the head of its loop, where the next frame is processed. If
  the client takes no more frame, no \<^verbatim>\<open>done\<close> frame is sent and the handler returns; the
  record stays. Whatever a connection handler or a conversion endpoint does from there on,
  the ledger keeps its records: none is changed or removed.
\<close>

theorem completed_turn_bills_once:
  assumes "loads E data = Some (PDict m)"
    and "dict_get m ''type'' PNone = PStr ''user_message''"
    and "openai_client s \<or> new_client w = None"
    and "create w model_name (turn_messages m) = Stream cs EndOfStream"
    and "fst (stream_chunks E cs s) = None"
    and "status s = Idle"
    and "s' = on_text E data w s"
  shows "BILLING_RECORDS s' = BILLING_RECORDS s @
           [[(''session_id'', PStr (session_id E)),
             (''duration_seconds'', PFloat (Finite (py_round (end_time w - start_time w) 2))),
             (''model'', PStr ''gpt-4o-mini''),
             (''timestamp'', PStr (gmtime_stamp w))]]
       \<and> (\<exists>k::int. py_round (end_time w - start_time w) 2 = of_int k / 100)
       \<and> filter is_chunk (frames_since s s') = map chunk_frame (emitted_texts cs)
       \<and> (can_send s (Suc (length (emitted_texts cs))) \<longrightarrow>
             frames_since s s' = map chunk_frame (emitted_texts cs) @ [done_frame]
           \<and> filter is_terminal (frames_since s s') = [done_frame]
           \<and> status s' = Idle
           \<and> (\<forall>data2 w2 evs.
                 websocket_chat E (Text data2 w2 # evs) s' =
                 websocket_chat E evs (on_text E data2 w2 s')))
       \<and> (\<not> can_send s (Suc (length (emitted_texts cs))) \<longrightarrow>
             frames_since s s' = map chunk_frame (emitted_texts cs)
           \<and> status s' = Closed (class_of (send_error E)))
       \<and> (\<forall>E' evs. prefix (BILLING_RECORDS s') (BILLING_RECORDS (websocket_chat E' evs s')))
       \<and> (\<forall>W. BILLING_RECORDS (snd (speech_to_text W s')) = BILLING_RECORDS s')
       \<and> (\<forall>V t. BILLING_RECORDS (snd (text_to_speech V t s')) = BILLING_RECORDS s')"
proof -
  note acc = assms(1,2)
  note pr = provider_Stream [OF assms(3,4)]
  have k: "can_send s (length (emitted_texts cs))"
    using assms(5) by (simp add: stream_chunks_completes)
  have ch: "filter is_chunk (map chunk_frame ts) = map chunk_frame ts" for ts
    by (induction ts) (simp_all add: is_chunk_def)
  have 1: "BILLING_RECORDS s' = BILLING_RECORDS s @
           [[(''session_id'', PStr (session_id E)),
             (''duration_seconds'', PFloat (Finite (py_round (end_time w - start_time w) 2))),
             (''model'', PStr ''gpt-4o-mini''),
             (''timestamp'', PStr (gmtime_stamp w))]]"
    unfolding assms(7) using k
    by (simp add: turn_ledger [OF acc] pr turn_record_def billing_record_def model_name_def)
  have 2: "frames_since s s' = map chunk_frame (emitted_texts cs) @ [done_frame]"
    if "can_send s (Suc (length (emitted_texts cs)))"
    unfolding assms(7) using that by (simp add: turn_frames [OF acc] pr terminal_frame_def)
  have 3: "status s' = Idle" if "can_send s (Suc (length (emitted_texts cs)))"
    unfolding assms(7) using that assms(6) by (simp add: turn_status [OF acc] pr)
  have 4: "filter is_terminal (frames_since s s') = [done_frame]"
    if "can_send s (Suc (length (emitted_texts cs)))"
    unfolding 2 [OF that] by (simp add: is_terminal_def)
  have 5: "\<exists>k::int. py_round (end_time w - start_time w) 2 = of_int k / 100"
    by (rule py_round_centi)
  have 6: "\<forall>E' evs. prefix (BILLING_RECORDS s') (BILLING_RECORDS (websocket_chat E' evs s'))"
    by (simp add: websocket_chat_ledger_prefix)
  have 7: "websocket_chat E (Text data2 w2 # evs) s' =
      websocket_chat E evs (on_text E data2 w2 s')"
    if "can_send s (Suc (length (emitted_texts cs)))" for data2 w2 evs
    using 3 [OF that] by simp
  have 8: "\<forall>W. BILLING_RECORDS (snd (speech_to_text W s')) = BILLING_RECORDS s'"
    by (simp add: conversions_keep_ledger)
  have 9: "\<forall>V t. BILLING_RECORDS (snd (text_to_speech V t s')) = BILLING_RECORDS s'"
    by (simp add: conversions_keep_ledger)
  have 10: "frames_since s s' = map chunk_frame (emitted_texts cs)"
    if n: "\<not> can_send s (Suc (length (emitted_texts cs)))"
  proof -
    from turn_frames_cut [where w = w and s = s, OF acc refl] n pr(1)
    obtain n where "send_budget s = Some n" "n \<le> length (emitted_texts cs)"
      "frames_since s s' = take n (map chunk_frame (emitted_texts cs))"
      unfolding assms(7) by auto
    moreover from this(1) k have "length (emitted_texts cs) \<le> n"
      by (simp add: can_send_def)
    ultimately show ?thesis by simp
  qed
  have 11: "status s' = Closed (class_of (send_error E))"
    if "\<not> can_send s (Suc (length (emitted_texts cs)))"
    unfolding assms(7) using that by (simp add: turn_status [OF acc] pr)
  have 12: "filter is_chunk (frames_since s s') = map chunk_frame (emitted_texts cs)"
  proof (cases "can_send s (Suc (length (emitted_texts cs)))")
    case True
    show ?thesis
      unfolding 2 [OF True] by (simp add: ch is_chunk_def)
  next
    case False
    show ?thesis
      unfolding 10 [OF False] by (simp add: ch)
  qed
  from 1 5 12 2 4 3 7 10 11 6 8 9 show ?thesis by blast
qed

theorem completed_turn_bills_once_witness:
  "BILLING_RECORDS (on_text sample_env hello_frame sample_world fresh) =
     [[(''session_id'', PStr ''1b4e28ba-2fa1-41d2-883f-0016d3cca427''),
       (''duration_seconds'', PFloat (Finite 1.24)),
       (''model'', PStr ''gpt-4o-mini''),
       (''timestamp'', PStr ''2025-01-01 12:00:01'')]]
   \<and> frames_since fresh (on_text sample_env hello_frame sample_world fresh) =
     [chunk_frame ''Hel'', chunk_frame ''lo, '', chunk_frame ''world'', done_frame]
   \<and> status (on_text sample_env hello_frame sample_world fresh) = Idle"
proof -
  have c: "openai_client fresh \<or> new_client sample_world = None"
    by (simp add: sample_any_state)
  have e: "fst (stream_chunks sample_env sample_chunks fresh) = None"
    by (simp add: stream_chunks_completes)
  have f: "status fresh = Idle"
    by simp
  from completed_turn_bills_once [OF sample_hello(1,2) c sample_any_state(6) e f refl]
  show ?thesis
    by (simp add: sample_texts sample_fields)
qed

text \<open>
  C2 as stated fails when the client leaves after the last chunk frame. The stream is
  consumed to its natural end and the record is appended, but no \<^verbatim>\<open>done\<close> frame is sent and
  the handler returns.
\<close>

theorem billed_turn_without_done:
  "create sample_world model_name (turn_messages hello_message) = Stream sample_chunks EndOfStream
   \<and> fst (stream_chunks sample_env sample_chunks leaving_before_done) = None
   \<and> BILLING_RECORDS (on_text sample_env hello_frame sample_world leaving_before_done) =
       [[(''session_id'', PStr ''1b4e28ba-2fa1-41d2-883f-0016d3cca427''),
         (''duration_seconds'', PFloat (Finite 1.24)),
         (''model'', PStr ''gpt-4o-mini''),
         (''timestamp'', PStr ''2025-01-01 12:00:01'')]]
   \<and> sent (on_text sample_env hello_frame sample_world leaving_before_done) =
       [chunk_frame ''Hel'', chunk_frame ''lo, '', chunk_frame ''world'']
   \<and> status (on_text sample_env hello_frame sample_world leaving_before_done) =
       Closed WebSocketDisconnect"
proof -
  have 1: "fst (stream_chunks sample_env sample_chunks leaving_before_done) = None"
    by (simp add: stream_chunks_completes sample_texts can_send_def)
  have 2: "BILLING_RECORDS (on_text sample_env hello_frame sample_world leaving_before_done) =
       [[(''session_id'', PStr ''1b4e28ba-2fa1-41d2-883f-0016d3cca427''),
         (''duration_seconds'', PFloat (Finite 1.24)),
         (''model'', PStr ''gpt-4o-mini''),
         (''timestamp'', PStr ''2025-01-01 12:00:01'')]]"
    by (simp add: turn_ledger [OF sample_hello(1,2)] sample_any_state sample_texts can_send_def
        turn_record_def billing_record_def sample_fields model_name_def)
  have 3: "sent (on_text sample_env hello_frame sample_world leaving_before_done) =
       [chunk_frame ''Hel'', chunk_frame ''lo, '', chunk_frame ''world'']"
    by (simp add: turn_sent [OF sample_hello(1,2)] sample_any_state sample_texts)
  have 4: "status (on_text sample_env hello_frame sample_world leaving_before_done) =
       Closed WebSocketDisconnect"
    by (simp add: turn_status [OF sample_hello(1,2)] sample_any_state sample_texts can_send_def)
  from sample_any_state(6) 1 2 3 4 show ?thesis by blast
qed

text \<open>
  C3, as the code has it. A turn in which the Completion Provider Client raises a failure
  (building the client, creating the stream, or in mid-stream after some chunks) appends no
  record. While the client takes the frames it gets the chunk frames delivered before the
  failure and then exactly one \<^verbatim>\<open>error\<close> frame whose text is the provider's message as
  normalised by the handler, and the handler is back at the head of its loop, where the
  next frame is processed. If the client stops taking frames, it gets chunk frames only, no
  \<^verbatim>\<open>error\<close> frame, and the handler returns.
\<close>

theorem failed_turn_not_billed:
  assumes "loads E data = Some (PDict m)"
    and "dict_get m ''type'' PNone = PStr ''user_message''"
    and "provider_failure w s (turn_messages m) = Some e"
    and "cs = provider_chunks w s (turn_messages m)"
    and "status s = Idle"
    and "s' = on_text E data w s"
  shows "BILLING_RECORDS s' = BILLING_RECORDS s
       \<and> (can_send s (Suc (length (emitted_texts cs))) \<longrightarrow>
            frames_since s s' =
              map chunk_frame (emitted_texts cs) @ [error_frame (streaming_error_text (str e))]
          \<and> filter is_terminal (frames_since s s') =
              [error_frame (streaming_error_text (str e))]
          \<and> status s' = Idle
          \<and> (\<forall>data2 w2 evs.
                websocket_chat E (Text data2 w2 # evs) s' =
                websocket_chat E evs (on_text E data2 w2 s')))
       \<and> (\<not> can_send s (Suc (length (emitted_texts cs))) \<longrightarrow>
            prefix (frames_since s s') (map chunk_frame (emitted_texts cs))
          \<and> filter is_terminal (frames_since s s') = []
          \<and> status s' = Closed (class_of (send_error E)))"
proof -
  note acc = assms(1,2)
  have 1: "BILLING_RECORDS s' = BILLING_RECORDS s"
    unfolding assms(6) by (simp add: turn_ledger [OF acc] assms(3))
  have 2: "frames_since s s' =
      map chunk_frame (emitted_texts cs) @ [error_frame (streaming_error_text (str e))]"
    if "can_send s (Suc (length (emitted_texts cs)))"
    unfolding assms(6) using that
    by (simp add: turn_frames [OF acc] assms(3) assms(4) [symmetric] terminal_frame_def)
  have 3: "status s' = Idle" if "can_send s (Suc (length (emitted_texts cs)))"
    unfolding assms(6) using that assms(5)
    by (simp add: turn_status [OF acc] assms(4) [symmetric])
  have 4: "filter is_terminal (frames_since s s') = [error_frame (streaming_error_text (str e))]"
    if "can_send s (Suc (length (emitted_texts cs)))"
    unfolding 2 [OF that] by (simp add: is_terminal_def)
  have 5: "websocket_chat E (Text data2 w2 # evs) s' =
      websocket_chat E evs (on_text E data2 w2 s')"
    if "can_send s (Suc (length (emitted_texts cs)))" for data2 w2 evs
    using 3 [OF that] by simp
  have 6: "prefix (frames_since s s') (map chunk_frame (emitted_texts cs))
      \<and> filter is_terminal (frames_since s s') = []"
    if n: "\<not> can_send s (Suc (length (emitted_texts cs)))"
  proof -
    from turn_frames_cut [where w = w and s = s, OF acc refl] n
    obtain n where "frames_since s s' = take n (map chunk_frame (emitted_texts cs))"
      unfolding assms(6) assms(4) by auto
    then show ?thesis
      by (simp only: take_chunk_frames_not_terminal take_is_prefix simp_thms)
  qed
  have 7: "status s' = Closed (class_of (send_error E))"
    if "\<not> can_send s (Suc (length (emitted_texts cs)))"
    unfolding assms(6) using that by (simp add: turn_status [OF acc] assms(4) [symmetric])
  from 1 2 3 4 5 6 7 show ?thesis by blast
qed

theorem failed_turn_not_billed_witness:
  "BILLING_RECORDS (on_text sample_env hello_frame failing_world fresh) = []
   \<and> frames_since fresh (on_text sample_env hello_frame failing_world fresh) =
       [chunk_frame ''Hel'', error_frame ''Rate limit reached'']
   \<and> status (on_text sample_env hello_frame failing_world fresh) = Idle"
proof -
  have f: "status fresh = Idle"
    by simp
  from failed_turn_not_billed [OF sample_hello(1,2) sample_failing(1)
      sample_failing(2) [symmetric] f refl]
  show ?thesis
    by (simp add: rate_limit_text sample_failing(3))
qed

text \<open>
  C3 as stated fails when the client has left. The provider refuses the request, nothing
  is sent, and the handler returns instead of waiting for the next frame.
\<close>

theorem failed_turn_without_error_frame:
  "create refused_world model_name (turn_messages hello_message) = CreateRaises rate_limit
   \<and> status gone = Idle
   \<and> sent (on_text sample_env hello_frame refused_world gone) = []
   \<and> status (on_text sample_env hello_frame refused_world gone) = Closed WebSocketDisconnect"
proof -
  have 0: "create refused_world model_name (turn_messages hello_message) =
      CreateRaises rate_limit"
    by (simp add: refused_world_def)
  have 1: "sent (on_text sample_env hello_frame refused_world gone) = []"
    by (simp add: turn_sent [OF sample_hello(1,2)] sample_any_state)
  have 2: "status (on_text sample_env hello_frame refused_world gone) =
      Closed WebSocketDisconnect"
    by (simp add: turn_status [OF sample_hello(1,2)] sample_any_state can_send_def)
  from 0 1 2 show ?thesis by simp
qed



text \<open>
  C5, as the code has it. The \<^verbatim>\<open>duration_seconds\<close> stored for a completed turn is
  \<^verbatim>\<open>round(end_time - start_time, 2)\<close> and nothing clamps it: it is non-negative whenever the
  clock reading after the stream is not below the reading before it.
\<close>

theorem duration_nonnegative_when_clock_monotone:
  assumes "loads E data = Some (PDict m)"
    and "dict_get m ''type'' PNone = PStr ''user_message''"
    and "provider_failure w s (turn_messages m) = None"
    and "can_send s (length (emitted_texts (provider_chunks w s (turn_messages m))))"
    and "start_time w \<le> end_time w"
  shows "map_of (last (BILLING_RECORDS (on_text E data w s))) ''duration_seconds'' =
           Some (PFloat (Finite (py_round (end_time w - start_time w) 2)))
       \<and> 0 \<le> py_round (end_time w - start_time w) 2"
  using assms(5)
  by (simp add: completed_ledger [OF assms(1-4)] turn_record_def billing_record_def
      py_round_nonneg)

theorem duration_nonnegative_when_clock_monotone_witness:
  "map_of (last (BILLING_RECORDS (on_text sample_env hello_frame sample_world fresh)))
       ''duration_seconds'' = Some (PFloat (Finite 1.24))
   \<and> (0::real) \<le> 1.24"
proof -
  have c: "can_send fresh (length (emitted_texts
      (provider_chunks sample_world fresh (turn_messages hello_message))))"
    by simp
  have d: "start_time sample_world \<le> end_time sample_world"
    by (simp add: sample_world_def)
  from duration_nonnegative_when_clock_monotone [OF sample_hello(1,2) sample_completes(1) c d]
  show ?thesis
    by (simp add: sample_fields)
qed

text \<open>
  C5 as stated fails. When the clock steps back between the two readings (here from 2 to
  1), the completed turn stores the negative duration \<open>-1\<close>.
\<close>

theorem negative_duration_stored:
  "start_time backwards_world = 2 \<and> end_time backwards_world = 1
   \<and> BILLING_RECORDS (on_text sample_env hello_frame backwards_world fresh) =
       [[(''session_id'', PStr ''1b4e28ba-2fa1-41d2-883f-0016d3cca427''),
         (''duration_seconds'', PFloat (Finite (- 1))),
         (''model'', PStr ''gpt-4o-mini''),
         (''timestamp'', PStr ''2025-01-01 12:00:01'')]]"
proof -
  have c: "can_send fresh (length (emitted_texts
      (provider_chunks backwards_world fresh (turn_messages hello_message))))"
    by simp
  have r: "py_round (end_time backwards_world - start_time backwards_world) 2 = - 1"
    by (simp add: backwards_world_def py_round_def round_half_even_def)
  show ?thesis
    by (simp add: completed_ledger [OF sample_hello(1,2) sample_completes(3) c] turn_record_def
        billing_record_def r sample_fields model_name_def)
      (simp add: backwards_world_def sample_world_def)
qed

text \<open>
  C6, as the code has it. A frame that is not an accepted \<^verbatim>\<open>user_message\<close> sends no frame,
  appends no record and makes no provider request. If it decodes to a dict (whose
  \<^verbatim>\<open>type\<close> is then not \<^verbatim>\<open>user_message\<close>) the state is unchanged and the handler goes on with
  the next frame. If \<^verbatim>\<open>json.loads\<close> raises, or gives a value that is no dict, the exception
  leaves the receive loop: the handler returns and the later frames are not processed.
\<close>

theorem unaccepted_frame_effects:
  assumes "status s = Idle"
    and "\<forall>m. loads E data = Some (PDict m) \<longrightarrow> dict_get m ''type'' PNone \<noteq> PStr ''user_message''"
    and "s' = on_text E data w s"
  shows "sent s' = sent s \<and> BILLING_RECORDS s' = BILLING_RECORDS s \<and> requests s' = requests s
       \<and> ((\<exists>m. loads E data = Some (PDict m)) \<longrightarrow>
             s' = s
           \<and> (\<forall>evs. websocket_chat E (Text data w # evs) s = websocket_chat E evs s))
       \<and> ((\<forall>m. loads E data \<noteq> Some (PDict m)) \<longrightarrow>
             status s' = Closed OtherException
           \<and> (\<forall>evs. websocket_chat E (Text data w # evs) s = s'))"
proof (cases "\<exists>m. loads E data = Some (PDict m)")
  case True
  then obtain m where m: "loads E data = Some (PDict m)" by blast
  with assms(2) have "dict_get m ''type'' PNone \<noteq> PStr ''user_message''" by blast
  then have "s' = s"
    unfolding assms(3) by (rule on_text_ignored [OF m])
  with m assms(1,3) show ?thesis by auto
next
  case False
  then have "s' = close OtherException s"
    unfolding assms(3) by (intro on_text_not_dict) blast
  moreover have "websocket_chat E evs (close OtherException s) = close OtherException s" for evs
    by (cases evs) (simp_all add: close_def)
  ultimately show ?thesis
    using False assms(1,3) by (auto simp: close_def)
qed

theorem unaccepted_frame_effects_witness:
  "on_text sample_env ping_frame sample_world fresh = fresh
   \<and> status (on_text sample_env garbage_frame sample_world fresh) = Closed OtherException
   \<and> sent (on_text sample_env garbage_frame sample_world fresh) = []
   \<and> BILLING_RECORDS (on_text sample_env garbage_frame sample_world fresh) = []"
proof -
  have f: "status fresh = Idle"
    by simp
  have p: "\<forall>m. loads sample_env ping_frame = Some (PDict m) \<longrightarrow>
      dict_get m ''type'' PNone \<noteq> PStr ''user_message''"
    by (simp add: sample_unaccepted dict_get_def)
  have g: "\<forall>m. loads sample_env garbage_frame = Some (PDict m) \<longrightarrow>
      dict_get m ''type'' PNone \<noteq> PStr ''user_message''"
    by (simp add: sample_unaccepted)
  from unaccepted_frame_effects [OF f p refl, of sample_world]
    unaccepted_frame_effects [OF f g refl, of sample_world]
  show ?thesis
    by (simp add: sample_unaccepted)
qed

text \<open>
  C6 as stated fails for a frame that does not parse. Such a frame ends the handler: a
  \<^verbatim>\<open>user_message\<close> that follows it gets no answer, while the same \<^verbatim>\<open>user_message\<close> on a
  new connection is answered.
\<close>

theorem unparsable_frame_ends_handler:
  "loads sample_env garbage_frame = None
   \<and> status (on_text sample_env garbage_frame sample_world fresh) = Closed OtherException
   \<and> sent (websocket_chat sample_env
        [Text garbage_frame sample_world, Text hello_frame sample_world] fresh) = []
   \<and> sent (websocket_chat sample_env [Text hello_frame sample_world] fresh) =
       [chunk_frame ''Hel'', chunk_frame ''lo, '', chunk_frame ''world'', done_frame]"
proof -
  have g: "on_text sample_env garbage_frame sample_world fresh = close OtherException fresh"
    by (rule on_text_not_dict) (simp add: sample_unaccepted)
  have c: "can_send fresh (Suc (length (emitted_texts
      (provider_chunks sample_world fresh (turn_messages hello_message)))))"
    by simp
  have h: "sent (on_text sample_env hello_frame sample_world fresh) =
      [chunk_frame ''Hel'', chunk_frame ''lo, '', chunk_frame ''world'', done_frame]"
    using turn_frames [OF sample_hello(1,2) c]
    by (simp add: frames_since_def sample_completes sample_texts terminal_frame_def)
  show ?thesis
    by (simp add: g h close_def sample_unaccepted)
qed

text \<open>
  C7, as the code has it. The frames sent for an accepted \<^verbatim>\<open>user_message\<close> hold at most
  one terminal frame (\<^verbatim>\<open>done\<close> or \<^verbatim>\<open>error\<close>), and every other frame is a chunk frame. While
  the client takes the frames of the turn, the handler is back at the head of its loop
  afterwards, and whenever it is, the frames are zero or more chunk frames followed by
  exactly one terminal frame. If the client stops taking frames during the turn, the
  frames are chunk frames only, without a terminal frame, and the handler returns.
\<close>

theorem turn_frames_shape:
  assumes "loads E data = Some (PDict m)"
    and "dict_get m ''type'' PNone = PStr ''user_message''"
    and "status s = Idle"
    and "s' = on_text E data w s"
    and "texts = emitted_texts (provider_chunks w s (turn_messages m))"
  shows "length (filter is_terminal (frames_since s s')) \<le> 1
       \<and> list_all is_chunk (filter (\<lambda>f. \<not> is_terminal f) (frames_since s s'))
       \<and> (status s' = Idle \<longrightarrow>
            turn_shape (frames_since s s')
          \<and> length (filter is_terminal (frames_since s s')) = 1)
       \<and> (can_send s (Suc (length texts)) \<longrightarrow> status s' = Idle)
       \<and> (\<not> can_send s (Suc (length texts)) \<longrightarrow>
            status s' = Closed (class_of (send_error E))
          \<and> prefix (frames_since s s') (map chunk_frame texts)
          \<and> filter is_terminal (frames_since s s') = [])"
proof -
  note acc = assms(1,2)
  define t where "t = terminal_frame (provider_failure w s (turn_messages m))"
  define F where "F = map chunk_frame texts @ [t]"
  have tt: "is_terminal t"
    by (simp add: t_def)
  have fr: "frames_since s s' = (case send_budget s of None \<Rightarrow> F | Some n \<Rightarrow> take n F)"
    unfolding assms(4)
    by (simp add: frames_since_def turn_sent [OF acc] Let_def F_def assms(5) t_def
        split: option.splits)
  have F1: "length (filter is_terminal F) = 1"
    by (simp add: F_def tt)
  have F2: "list_all is_chunk (filter (\<lambda>f. \<not> is_terminal f) F)"
    using tt by (simp add: F_def list_all_iff) (auto simp: is_chunk_def)
  have 1: "length (filter is_terminal (frames_since s s')) \<le> 1"
    unfolding fr using length_filter_take [of is_terminal _ F] F1
    by (auto split: option.splits)
  have 2: "list_all is_chunk (filter (\<lambda>f. \<not> is_terminal f) (frames_since s s'))"
  proof (cases "send_budget s")
    case None
    then show ?thesis using F2 by (simp add: fr)
  next
    case (Some n)
    have "set (take n F) \<subseteq> set F"
      by (rule set_take_subset)
    with F2 show ?thesis
      unfolding fr Some by (auto simp: list_all_iff)
  qed
  have st: "status s' =
      (if can_send s (Suc (length texts)) then Idle else Closed (class_of (send_error E)))"
    unfolding assms(4) using assms(3) by (simp add: turn_status [OF acc] assms(5))
  have 3: "turn_shape (frames_since s s') \<and> length (filter is_terminal (frames_since s s')) = 1"
    if "status s' = Idle"
  proof -
    have "can_send s (Suc (length texts))"
      using that st by (simp split: if_splits)
    then have "frames_since s s' = F"
      unfolding assms(4) by (simp add: turn_frames [OF acc] assms(5) F_def t_def)
    then show ?thesis
      using F1 by (simp add: turn_shape_def F_def tt)
  qed
  have 4: "status s' = Idle" if "can_send s (Suc (length texts))"
    using that st by simp
  have 5: "status s' = Closed (class_of (send_error E))
      \<and> prefix (frames_since s s') (map chunk_frame texts)
      \<and> filter is_terminal (frames_since s s') = []"
    if n: "\<not> can_send s (Suc (length texts))"
  proof -
    from turn_frames_cut [where w = w and s = s, OF acc assms(5)] n
    obtain n where "frames_since s s' = take n (map chunk_frame texts)"
      unfolding assms(4) by auto
    then have "prefix (frames_since s s') (map chunk_frame texts)
        \<and> filter is_terminal (frames_since s s') = []"
      by (simp only: take_chunk_frames_not_terminal take_is_prefix simp_thms)
    with n st show ?thesis by simp
  qed
  from 1 2 3 4 5 show ?thesis by blast
qed

theorem turn_frames_shape_witness:
  "turn_shape (frames_since fresh (on_text sample_env hello_frame sample_world fresh))
   \<and> turn_shape (frames_since fresh (on_text sample_env hello_frame failing_world fresh))
   \<and> length (filter is_terminal
        (frames_since fresh (on_text sample_env hello_frame failing_world fresh))) = 1
   \<and> filter is_terminal
        (frames_since leaving (on_text sample_env hello_frame sample_world leaving)) = []"
proof -
  have f: "status fresh = Idle"
    by simp
  have l: "status leaving = Idle"
    by simp
  have n: "\<not> can_send leaving (Suc (length (emitted_texts
      (provider_chunks sample_world leaving (turn_messages hello_message)))))"
    by (simp add: sample_any_state sample_texts can_send_def)
  from turn_frames_shape [where w = sample_world, OF sample_hello(1,2) f refl refl]
    turn_frames_shape [where w = failing_world, OF sample_hello(1,2) f refl refl]
    turn_frames_shape [where w = sample_world, OF sample_hello(1,2) l refl refl] n
  show ?thesis
    by simp
qed

text \<open>
  C7 as stated fails when the client leaves during the turn. An accepted turn then sends
  two chunk frames and no terminal frame.
\<close>

theorem accepted_turn_without_terminal:
  "loads sample_env hello_frame = Some (PDict hello_message)
   \<and> dict_get hello_message ''type'' PNone = PStr ''user_message''
   \<and> status leaving = Idle
   \<and> frames_since leaving (on_text sample_env hello_frame sample_world leaving) =
       [chunk_frame ''Hel'', chunk_frame ''lo, '']
   \<and> filter is_terminal
        (frames_since leaving (on_text sample_env hello_frame sample_world leaving)) = []
   \<and> status (on_text sample_env hello_frame sample_world leaving) = Closed WebSocketDisconnect"
  by (simp add: sample_hello(1,2) sample_leaving frames_since_def is_terminal_def)

text \<open>
  C8. For every user text and every optional whisper, \<^verbatim>\<open>build_messages\<close> returns a
  non-empty list whose first element is the fixed directive as a system-role entry and
  whose last element is the user text as a user-role entry; it has three elements, the
  whisper being the second as a system-role entry, when the whisper is present and
  non-empty, and two otherwise. The function is pure: its result is a new list and
  neither argument (an immutable \<^verbatim>\<open>str\<close> or \<^verbatim>\<open>None\<close>) is changed.
\<close>

theorem build_messages_layout:
  fixes patient_text :: string and whisper :: "string option"
  shows "(let ms = build_messages (PStr patient_text) (case whisper of None \<Rightarrow> PNone | Some x \<Rightarrow> PStr x)
          in ms \<noteq> []
           \<and> hd ms = [(''role'', PStr ''system''), (''content'', PStr MASTER_THERAPY_PROMPT)]
           \<and> last ms = [(''role'', PStr ''user''), (''content'', PStr patient_text)]
           \<and> (case whisper of
                 None \<Rightarrow> length ms = 2
               | Some x \<Rightarrow>
                   if x = [] then length ms = 2
                   else length ms = 3
                      \<and> ms ! 1 = [(''role'', PStr ''system''), (''content'', PStr x)]))"
  by (simp add: build_messages_def system_message_def user_message_def Let_def
      split: option.splits)

theorem build_messages_layout_witness:
  "length (build_messages (PStr ''I feel tired'') (PStr ''be brief'')) = 3
   \<and> build_messages (PStr ''I feel tired'') (PStr ''be brief'') ! 1
       = [(''role'', PStr ''system''), (''content'', PStr ''be brief'')]
   \<and> last (build_messages (PStr ''I feel tired'') (PStr ''be brief''))
       = [(''role'', PStr ''user''), (''content'', PStr ''I feel tired'')]
   \<and> length (build_messages (PStr ''I feel tired'') PNone) = 2"
  using build_messages_layout [of "''I feel tired''" "Some ''be brief''"]
    build_messages_layout [of "''I feel tired''" None]
  by (simp add: Let_def)



text \<open>
  C10. A frame that decodes to a dict with \<^verbatim>\<open>type\<close> \<^verbatim>\<open>user_message\<close> and no \<^verbatim>\<open>text\<close> key is
  not ignored: the turn runs with the empty string as the user text, so the provider is
  requested with the directive and an empty user entry, the frames of a full turn are
  sent, a completed turn appends its record, and the result is the one of the frame that
  carries \<^verbatim>\<open>"text": ""\<close>.
\<close>

theorem missing_text_runs_empty_turn:
  assumes "loads E data = Some (PDict m)"
    and "dict_get m ''type'' PNone = PStr ''user_message''"
    and "map_of m ''text'' = None"
    and "s' = on_text E data w s"
    and "msgs = [[(''role'', PStr ''system''), (''content'', PStr MASTER_THERAPY_PROMPT)],
                 [(''role'', PStr ''user''), (''content'', PStr [])]]"
  shows "build_messages (PStr []) PNone = msgs
       \<and> (openai_client s \<or> new_client w = None \<longrightarrow>
             requests s' = requests s @ [(''gpt-4o-mini'', msgs)])
       \<and> (can_send s (Suc (length (emitted_texts (provider_chunks w s msgs)))) \<longrightarrow>
             frames_since s s' =
               map chunk_frame (emitted_texts (provider_chunks w s msgs)) @
                 [terminal_frame (provider_failure w s msgs)])
       \<and> (provider_failure w s msgs = None
            \<and> can_send s (length (emitted_texts (provider_chunks w s msgs))) \<longrightarrow>
             BILLING_RECORDS s' = BILLING_RECORDS s @ [turn_record E w])
       \<and> (\<forall>data2. loads E data2 = Some (PDict (m @ [(''text'', PStr [])])) \<longrightarrow>
             on_text E data2 w s = s')"
proof -
  note acc = assms(1,2)
  have bm: "build_messages (PStr []) PNone = msgs"
    by (simp add: build_messages_def system_message_def user_message_def assms(5))
  have tm: "turn_messages m = msgs"
    using assms(3) by (simp add: turn_messages_def dict_get_def bm)
  have 2: "requests s' = requests s @ [(''gpt-4o-mini'', msgs)]"
    if "openai_client s \<or> new_client w = None"
    unfolding assms(4) using that
    by (auto simp: turn_requests [OF acc] tm client_failure_def model_name_def)
  have 3: "frames_since s s' =
      map chunk_frame (emitted_texts (provider_chunks w s msgs)) @
        [terminal_frame (provider_failure w s msgs)]"
    if "can_send s (Suc (length (emitted_texts (provider_chunks w s msgs))))"
    unfolding assms(4) using that turn_frames [OF acc, of s w] by (simp add: tm)
  have 4: "BILLING_RECORDS s' = BILLING_RECORDS s @ [turn_record E w]"
    if "provider_failure w s msgs = None
        \<and> can_send s (length (emitted_texts (provider_chunks w s msgs)))"
    unfolding assms(4) using that by (simp add: turn_ledger [OF acc] tm)
  have 5: "on_text E data2 w s = s'"
    if l: "loads E data2 = Some (PDict (m @ [(''text'', PStr [])]))" for data2
  proof -
    from assms(2) have "map_of m ''type'' = Some (PStr ''user_message'')"
      by (auto simp: dict_get_def split: option.splits)
    then have t: "dict_get (m @ [(''text'', PStr [])]) ''type'' PNone = PStr ''user_message''"
      by (simp add: dict_get_def map_add_def)
    have "turn_messages (m @ [(''text'', PStr [])]) = turn_messages m"
      using assms(3) by (simp add: turn_messages_def dict_get_def map_add_def)
    then show ?thesis
      unfolding assms(4) by (simp add: on_text_accepted [OF l t] on_text_accepted [OF acc])
  qed
  from bm 2 3 4 5 show ?thesis by blast
qed

theorem missing_text_runs_empty_turn_witness:
  "requests (on_text sample_env no_text_frame sample_world fresh) =
     [(''gpt-4o-mini'',
       [[(''role'', PStr ''system''), (''content'', PStr MASTER_THERAPY_PROMPT)],
        [(''role'', PStr ''user''), (''content'', PStr [])]])]
   \<and> frames_since fresh (on_text sample_env no_text_frame sample_world fresh) =
       [chunk_frame ''Hel'', chunk_frame ''lo, '', chunk_frame ''world'', done_frame]
   \<and> BILLING_RECORDS (on_text sample_env no_text_frame sample_world fresh) =
       [turn_record sample_env sample_world]
   \<and> on_text sample_env empty_text_frame sample_world fresh =
       on_text sample_env no_text_frame sample_world fresh"
proof -
  have n: "new_client sample_world = None"
    by (simp add: sample_world_def)
  from missing_text_runs_empty_turn [where w = sample_world and s = fresh,
      OF sample_no_text(1,3,4) refl refl]
  show ?thesis
    by (simp add: sample_completes sample_texts sample_no_text(2) terminal_frame_def n)
qed

end
